theory Spec2Isabelle
  imports Main "HOL-Library.Word"
begin

section \<open>Vertex attribute accessors of the Rendering library\<close>

text \<open>
  A shallow embedding of \<^verbatim>\<open>Mesh/VertexAttributeAccessors.h\<close>: the base class
  \<^verbatim>\<open>VertexAttributeAccessor\<close> and the two concrete accessors
  \<^verbatim>\<open>PositionAttributeAccessor\<close> and \<^verbatim>\<open>TexCoordAttributeAccessor\<close>.

  Conventions of the embedding.
  \<^item> \<^verbatim>\<open>uint32_t\<close> is \<open>32 word\<close>; \<^verbatim>\<open>size_t\<close> and pointers are \<open>64 word\<close>
    (an LP64 platform), so pointer arithmetic wraps modulo \<open>2 ^ 64\<close> in the model.
  \<^item> A \<^verbatim>\<open>float\<close> is its 32-bit pattern. The header only copies floats between a
    vector and the buffer, it never computes with them, so equality of floats in the
    model is equality of bit patterns. A float occupies four consecutive bytes, least
    significant byte first.
  \<^item> The vertex memory is a total function from addresses to bytes. Objects
    (\<^verbatim>\<open>MeshVertexData\<close>, accessors) live in object stores indexed by references, apart
    from the vertex memory.
  \<^item> A member function takes \<open>this\<close> and the arguments and maps the state before the
    call to a result (\<open>Inl\<close> an exception, \<open>Inr\<close> a value) and the state after.
\<close>

subsection \<open>Machine types and memory\<close>

type_synonym byte = "8 word"
type_synonym u32 = "32 word"
type_synonym addr = "64 word"
type_synonym float32 = "32 word"
type_synonym ref = nat
type_synonym memory = "addr \<Rightarrow> byte"

definition load_float :: "memory \<Rightarrow> addr \<Rightarrow> float32" where
  "load_float m a =
     or (ucast (m a))
       (or (push_bit 8 (ucast (m (a + 1))))
         (or (push_bit 16 (ucast (m (a + 2))))
             (push_bit 24 (ucast (m (a + 3))))))"

definition store_float :: "addr \<Rightarrow> float32 \<Rightarrow> memory \<Rightarrow> memory" where
  "store_float a f m =
     m(a := ucast f,
       a + 1 := ucast (drop_bit 8 f),
       a + 2 := ucast (drop_bit 16 f),
       a + 3 := ucast (drop_bit 24 f))"

text \<open>\<^verbatim>\<open>Geometry::Vec3\<close> and \<^verbatim>\<open>Geometry::Vec2\<close>: the constructor and the
  component getters \<^verbatim>\<open>x()\<close>, \<^verbatim>\<open>y()\<close>, \<^verbatim>\<open>z()\<close> are all that the header uses.\<close>

datatype Vec3 = Vec3 (vec3_x: float32) (vec3_y: float32) (vec3_z: float32)

datatype Vec2 = Vec2 (vec2_x: float32) (vec2_y: float32)

subsection \<open>The external collaborators\<close>

text \<open>Modelled from the spec: the component encoding of an attribute. Its declaration
  (\<^verbatim>\<open>VertexAttribute.h\<close>) is not among the sources; the spec names a 32-bit float and an
  8-bit unsigned normalized encoding and leaves the others open.\<close>

datatype encoding = Float32 | UInt8Normalized | OtherEncoding nat

text \<open>Modelled from the spec: the attribute metadata \<^verbatim>\<open>VertexAttribute\<close>, declared in
  \<^verbatim>\<open>VertexAttribute.h\<close>, which is not among the sources. The spec gives it a name, a byte
  offset within a vertex record, a component count and a component encoding. The
  offset is kept at pointer width, as it is used in \<^verbatim>\<open>vData.data() + attribute.getOffset()\<close>.\<close>

record VertexAttribute =
  getNameId :: string
  getOffset :: addr
  getNumValues :: nat
  getDataType :: encoding

text \<open>Modelled from the spec: the layout descriptor \<^verbatim>\<open>VertexDescription\<close>, declared in
  \<^verbatim>\<open>VertexDescription.h\<close>, which is not among the sources: the record size (stride) and an
  ordered mapping from attribute names to metadata.\<close>

record VertexDescription =
  getVertexSize :: addr
  getAttributes :: "VertexAttribute list"

text \<open>Modelled from the spec: the vertex buffer \<^verbatim>\<open>MeshVertexData\<close>, declared in
  \<^verbatim>\<open>MeshVertexData.h\<close>, which is not among the sources: a raw pointer to vertex 0, the
  number of vertices currently stored, and its layout descriptor.\<close>

record MeshVertexData =
  data :: addr
  getVertexCount :: u32
  getVertexDescription :: VertexDescription

subsection \<open>The base class \<^verbatim>\<open>VertexAttributeAccessor\<close>\<close>

text \<open>The four data members. \<open>vData\<close> is a C++ reference: the accessor does not hold
  the buffer but refers to it.\<close>

record VertexAttributeAccessor =
  vData :: ref
  attribute :: VertexAttribute
  vertexSize :: addr
  dataPtr :: addr

record world =
  mem :: memory
  meshes :: "ref \<Rightarrow> MeshVertexData"
  accessors :: "ref \<Rightarrow> VertexAttributeAccessor"

datatype error = RangeError u32 u32 | InvalidAttribute | UnsupportedEncoding

type_synonym 'a result = "(error + 'a) \<times> world"

text \<open>The constructor: the stride and the base pointer are read from the buffer once,
  here.\<close>

definition VertexAttributeAccessor_ctor ::
  "ref \<Rightarrow> VertexAttribute \<Rightarrow> world \<Rightarrow> VertexAttributeAccessor" where
  "VertexAttributeAccessor_ctor vd attr w =
     \<lparr> vData = vd,
       attribute = attr,
       vertexSize = getVertexSize (getVertexDescription (meshes w vd)),
       dataPtr = data (meshes w vd) + getOffset attr \<rparr>"

definition construct :: "ref \<Rightarrow> ref \<Rightarrow> VertexAttribute \<Rightarrow> world \<Rightarrow> world" where
  "construct this vd attr w =
     w\<lparr> accessors := (accessors w)(this := VertexAttributeAccessor_ctor vd attr w) \<rparr>"

text \<open>The buffer that the member \<open>vData\<close> of the accessor \<open>this\<close> refers to, as it is in
  the state \<open>w\<close>.\<close>

definition buffer :: "ref \<Rightarrow> world \<Rightarrow> MeshVertexData" where
  "buffer this w = meshes w (vData (accessors w this))"

text \<open>Modelled from the spec: \<^verbatim>\<open>throwRangeError\<close> is declared in the header and defined
  elsewhere. By the spec it raises a RangeError carrying the offending index and the
  current vertex count.\<close>

definition throwRangeError :: "ref \<Rightarrow> u32 \<Rightarrow> world \<Rightarrow> unit result" where
  "throwRangeError this index w =
     (Inl (RangeError index (getVertexCount (buffer this w))), w)"

definition assertRange :: "ref \<Rightarrow> u32 \<Rightarrow> world \<Rightarrow> unit result" where
  "assertRange this index w =
     (if index \<ge> getVertexCount (buffer this w) then throwRangeError this index w
      else (Inr (), w))"

definition checkRange :: "ref \<Rightarrow> u32 \<Rightarrow> world \<Rightarrow> bool result" where
  "checkRange this index w = (Inr (index < getVertexCount (buffer this w)), w)"

definition getAttribute :: "ref \<Rightarrow> world \<Rightarrow> VertexAttribute result" where
  "getAttribute this w = (Inr (attribute (accessors w this)), w)"

text \<open>\<^verbatim>\<open>_ptr\<close>: the address of the attribute of vertex \<open>index\<close>. The product of a
  \<^verbatim>\<open>uint32_t\<close> and a \<^verbatim>\<open>size_t\<close> is taken at the width of \<^verbatim>\<open>size_t\<close>.\<close>

definition ptr :: "ref \<Rightarrow> u32 \<Rightarrow> world \<Rightarrow> addr" where
  "ptr this index w =
     dataPtr (accessors w this) + ucast index * vertexSize (accessors w this)"

subsection \<open>\<^verbatim>\<open>PositionAttributeAccessor\<close>\<close>

definition getPosition :: "ref \<Rightarrow> u32 \<Rightarrow> world \<Rightarrow> Vec3 result" where
  "getPosition this index w =
     (case assertRange this index w of
        (Inl e, w') \<Rightarrow> (Inl e, w')
      | (Inr _, w') \<Rightarrow>
          (let v = ptr this index w' in
           (Inr (Vec3 (load_float (mem w') v)
                      (load_float (mem w') (v + 4))
                      (load_float (mem w') (v + 8))), w')))"

definition setPosition :: "ref \<Rightarrow> u32 \<Rightarrow> Vec3 \<Rightarrow> world \<Rightarrow> unit result" where
  "setPosition this index p w =
     (case assertRange this index w of
        (Inl e, w') \<Rightarrow> (Inl e, w')
      | (Inr _, w') \<Rightarrow>
          (let v = ptr this index w' in
           (Inr (), w'\<lparr> mem :=
              store_float (v + 8) (vec3_z p)
                (store_float (v + 4) (vec3_y p)
                  (store_float v (vec3_x p) (mem w'))) \<rparr>)))"

subsection \<open>\<^verbatim>\<open>TexCoordAttributeAccessor\<close>\<close>

definition getCoordinate :: "ref \<Rightarrow> u32 \<Rightarrow> world \<Rightarrow> Vec2 result" where
  "getCoordinate this index w =
     (case assertRange this index w of
        (Inl e, w') \<Rightarrow> (Inl e, w')
      | (Inr _, w') \<Rightarrow>
          (let v = ptr this index w' in
           (Inr (Vec2 (load_float (mem w') v)
                      (load_float (mem w') (v + 4))), w')))"

definition setCoordinate :: "ref \<Rightarrow> u32 \<Rightarrow> Vec2 \<Rightarrow> world \<Rightarrow> unit result" where
  "setCoordinate this index p w =
     (case assertRange this index w of
        (Inl e, w') \<Rightarrow> (Inl e, w')
      | (Inr _, w') \<Rightarrow>
          (let v = ptr this index w' in
           (Inr (), w'\<lparr> mem :=
              store_float (v + 4) (vec2_y p)
                (store_float v (vec2_x p) (mem w')) \<rparr>)))"

subsection \<open>The factories\<close>

datatype family = Position | Normal | Color | TexCoord

text \<open>A supported (component count, encoding) pair of an encoding strategy.\<close>

type_synonym strategy = "nat \<times> encoding"

text \<open>Modelled from the spec: the lookup of an attribute name in the layout descriptor
  (\<^verbatim>\<open>VertexDescription.h\<close> is not among the sources). It yields the metadata of the
  first attribute of that name, or nothing.\<close>

definition lookup :: "VertexDescription \<Rightarrow> string \<Rightarrow> VertexAttribute option" where
  "lookup vdesc name = find (\<lambda>a. getNameId a = name) (getAttributes vdesc)"

definition matches :: "VertexAttribute \<Rightarrow> strategy \<Rightarrow> bool" where
  "matches attr s = (getNumValues attr = fst s \<and> getDataType attr = snd s)"

text \<open>Modelled from the spec: the static factories \<^verbatim>\<open>create\<close> of the four families are
  declared in the header and defined elsewhere. By the spec (factory dispatch) a factory
  looks the name up in the layout descriptor of the buffer and fails with InvalidAttribute
  when it is absent; it then takes the first strategy of its family, in the order of the
  list, whose pair matches the attribute, and fails with UnsupportedEncoding when there is
  none; otherwise it constructs the accessor and returns a reference to it. The ordered
  list of strategies of each family is not given by the spec and is a parameter, as is the
  reference \<open>fresh\<close> at which the new object is allocated.\<close>

definition create ::
  "(family \<Rightarrow> strategy list) \<Rightarrow> family \<Rightarrow> ref \<Rightarrow> ref \<Rightarrow> string \<Rightarrow> world \<Rightarrow> ref result" where
  "create strategies fam fresh vd name w =
     (case lookup (getVertexDescription (meshes w vd)) name of
        None \<Rightarrow> (Inl InvalidAttribute, w)
      | Some attr \<Rightarrow>
          (case find (matches attr) (strategies fam) of
             None \<Rightarrow> (Inl UnsupportedEncoding, w)
           | Some s \<Rightarrow> (Inr fresh, construct fresh vd attr w)))"

subsection \<open>Sequences of calls\<close>

text \<open>The calls a client can make on accessors that exist, and the alteration of a
  buffer from outside (a resize, a reallocation, a new layout), which no accessor
  notices.\<close>

datatype call =
    CheckRange ref u32
  | GetAttribute ref
  | GetPosition ref u32
  | SetPosition ref u32 Vec3
  | GetCoordinate ref u32
  | SetCoordinate ref u32 Vec2
  | Alter ref MeshVertexData

definition alter :: "ref \<Rightarrow> MeshVertexData \<Rightarrow> world \<Rightarrow> world" where
  "alter vd b w = w\<lparr> meshes := (meshes w)(vd := b) \<rparr>"

fun exec :: "call \<Rightarrow> world \<Rightarrow> world" where
  "exec (CheckRange this i) w = snd (checkRange this i w)"
| "exec (GetAttribute this) w = snd (getAttribute this w)"
| "exec (GetPosition this i) w = snd (getPosition this i w)"
| "exec (SetPosition this i p) w = snd (setPosition this i p w)"
| "exec (GetCoordinate this i) w = snd (getCoordinate this i w)"
| "exec (SetCoordinate this i p) w = snd (setCoordinate this i p w)"
| "exec (Alter vd b) w = alter vd b w"

fun run :: "call list \<Rightarrow> world \<Rightarrow> world" where
  "run [] w = w"
| "run (c # cs) w = run cs (exec c w)"

subsection \<open>Layout conditions\<close>

text \<open>The buffer is an allocation: its \<open>getVertexCount\<close> records of \<open>getVertexSize\<close>
  bytes, from \<open>data\<close> on, lie within the address space.\<close>

definition allocated :: "MeshVertexData \<Rightarrow> bool" where
  "allocated b =
     (unat (data b) + unat (getVertexCount b) * unat (getVertexSize (getVertexDescription b))
        \<le> 2 ^ 64)"

text \<open>The \<open>n\<close> bytes from offset \<open>off\<close> on lie within the vertex record.\<close>

definition within_record :: "VertexDescription \<Rightarrow> addr \<Rightarrow> nat \<Rightarrow> bool" where
  "within_record vdesc off n = (unat off + n \<le> unat (getVertexSize vdesc))"

text \<open>Two byte ranges of the vertex record, each given by its offset and its length, do
  not overlap.\<close>

definition non_overlapping :: "addr \<Rightarrow> nat \<Rightarrow> addr \<Rightarrow> nat \<Rightarrow> bool" where
  "non_overlapping offA nA offB nB = (unat offA + nA \<le> unat offB \<or> unat offB + nB \<le> unat offA)"

subsection \<open>A concrete buffer\<close>

text \<open>Ten vertices of 32 bytes: the position at offset 0 (three floats), the color at
  offset 12 (four bytes), the texture coordinate at offset 16 (two floats). The accessors
  0, 1 and 2 are bound to the three attributes in this order.\<close>

definition positionAttr :: VertexAttribute where
  "positionAttr =
     \<lparr> getNameId = ''position'', getOffset = 0, getNumValues = 3, getDataType = Float32 \<rparr>"

definition colorAttr :: VertexAttribute where
  "colorAttr =
     \<lparr> getNameId = ''color'', getOffset = 12, getNumValues = 4,
       getDataType = UInt8Normalized \<rparr>"

definition texCoordAttr :: VertexAttribute where
  "texCoordAttr =
     \<lparr> getNameId = ''texcoord'', getOffset = 16, getNumValues = 2, getDataType = Float32 \<rparr>"

definition scenarioLayout :: VertexDescription where
  "scenarioLayout =
     \<lparr> getVertexSize = 32, getAttributes = [positionAttr, colorAttr, texCoordAttr] \<rparr>"

definition scenarioBuffer :: MeshVertexData where
  "scenarioBuffer =
     \<lparr> data = 4096, getVertexCount = 10, getVertexDescription = scenarioLayout \<rparr>"

definition blank :: world where
  "blank =
     \<lparr> mem = (\<lambda>a. 0),
       meshes = (\<lambda>r. scenarioBuffer),
       accessors = (\<lambda>r. \<lparr> vData = 0, attribute = positionAttr, vertexSize = 0, dataPtr = 0 \<rparr>) \<rparr>"

definition scenario :: world where
  "scenario =
     construct 2 0 texCoordAttr (construct 1 0 colorAttr (construct 0 0 positionAttr blank))"

text \<open>The same with no vertex in the buffer.\<close>

definition emptyScenario :: world where
  "emptyScenario = alter 0 (scenarioBuffer\<lparr> getVertexCount := 0 \<rparr>) scenario"

definition supported :: "family \<Rightarrow> strategy list" where
  "supported fam =
     (case fam of
        Position \<Rightarrow> [(3, Float32)]
      | Normal \<Rightarrow> [(3, Float32)]
      | Color \<Rightarrow> [(4, Float32), (4, UInt8Normalized)]
      | TexCoord \<Rightarrow> [(2, Float32)])"

section \<open>Properties\<close>

subsection \<open>Floats in memory\<close>

lemma load_store_same: "load_float (store_float a f m) a = f"
proof (rule bit_word_eqI)
  fix n :: nat
  assume n: "n < LENGTH(32)"
  consider "n < 8" | "8 \<le> n" "n < 16" | "16 \<le> n" "n < 24" | "24 \<le> n" "n < 32"
    using n by fastforce
  then show "bit (load_float (store_float a f m) a) n = bit f n"
  proof cases
    case 1
    then show ?thesis unfolding load_float_def store_float_def
      by (auto simp add: bit_simps)
  next
    case 2
    then show ?thesis unfolding load_float_def store_float_def
      by (auto simp add: bit_simps)
  next
    case 3
    then show ?thesis unfolding load_float_def store_float_def
      by (auto simp add: bit_simps)
  next
    case 4
    then show ?thesis unfolding load_float_def store_float_def
      by (auto simp add: bit_simps)
  qed
qed

lemma load_float_cong:
  "m' a = m a \<Longrightarrow> m' (a + 1) = m (a + 1) \<Longrightarrow> m' (a + 2) = m (a + 2) \<Longrightarrow>
   m' (a + 3) = m (a + 3) \<Longrightarrow> load_float m' a = load_float m a"
  by (simp add: load_float_def)

lemma load_store_apart:
  "load_float (store_float (a + 4) f m) a = load_float m a"
  "load_float (store_float (a + 8) f m) a = load_float m a"
  "load_float (store_float (a + 8) f m) (a + 4) = load_float m (a + 4)"
  by (rule load_float_cong; simp add: store_float_def)+

subsection \<open>The range check\<close>

lemma assertRange_fails:
  "getVertexCount (buffer this w) \<le> i \<Longrightarrow>
   assertRange this i w = (Inl (RangeError i (getVertexCount (buffer this w))), w)"
  by (simp add: assertRange_def throwRangeError_def)

lemma assertRange_passes:
  "i < getVertexCount (buffer this w) \<Longrightarrow> assertRange this i w = (Inr (), w)"
  by (simp add: assertRange_def not_le [symmetric])

lemma getPosition_out_of_range:
  "getVertexCount (buffer this w) \<le> i \<Longrightarrow>
   getPosition this i w = (Inl (RangeError i (getVertexCount (buffer this w))), w)"
  by (simp add: getPosition_def assertRange_fails)

lemma setPosition_out_of_range:
  "getVertexCount (buffer this w) \<le> i \<Longrightarrow>
   setPosition this i p w = (Inl (RangeError i (getVertexCount (buffer this w))), w)"
  by (simp add: setPosition_def assertRange_fails)

lemma getCoordinate_out_of_range:
  "getVertexCount (buffer this w) \<le> i \<Longrightarrow>
   getCoordinate this i w = (Inl (RangeError i (getVertexCount (buffer this w))), w)"
  by (simp add: getCoordinate_def assertRange_fails)

lemma setCoordinate_out_of_range:
  "getVertexCount (buffer this w) \<le> i \<Longrightarrow>
   setCoordinate this i p w = (Inl (RangeError i (getVertexCount (buffer this w))), w)"
  by (simp add: setCoordinate_def assertRange_fails)

lemma getPosition_in_range:
  "i < getVertexCount (buffer this w) \<Longrightarrow>
   getPosition this i w =
     (Inr (Vec3 (load_float (mem w) (ptr this i w))
                (load_float (mem w) (ptr this i w + 4))
                (load_float (mem w) (ptr this i w + 8))), w)"
  by (simp add: getPosition_def assertRange_passes Let_def)

lemma setPosition_in_range:
  "i < getVertexCount (buffer this w) \<Longrightarrow>
   setPosition this i p w =
     (Inr (), w\<lparr> mem :=
        store_float (ptr this i w + 8) (vec3_z p)
          (store_float (ptr this i w + 4) (vec3_y p)
            (store_float (ptr this i w) (vec3_x p) (mem w))) \<rparr>)"
  by (simp add: setPosition_def assertRange_passes Let_def)

lemma getCoordinate_in_range:
  "i < getVertexCount (buffer this w) \<Longrightarrow>
   getCoordinate this i w =
     (Inr (Vec2 (load_float (mem w) (ptr this i w))
                (load_float (mem w) (ptr this i w + 4))), w)"
  by (simp add: getCoordinate_def assertRange_passes Let_def)

lemma setCoordinate_in_range:
  "i < getVertexCount (buffer this w) \<Longrightarrow>
   setCoordinate this i p w =
     (Inr (), w\<lparr> mem :=
        store_float (ptr this i w + 4) (vec2_y p)
          (store_float (ptr this i w) (vec2_x p) (mem w)) \<rparr>)"
  by (simp add: setCoordinate_def assertRange_passes Let_def)

text \<open>A write to the vertex memory changes neither the objects nor what is computed from
  them alone.\<close>

lemma buffer_mem_update [simp]: "buffer this (w\<lparr> mem := m \<rparr>) = buffer this w"
  by (simp add: buffer_def)

lemma ptr_mem_update [simp]: "ptr this i (w\<lparr> mem := m \<rparr>) = ptr this i w"
  by (simp add: ptr_def)

subsection \<open>The concrete buffer\<close>

lemma scenario_mem: "mem scenario = (\<lambda>a. 0)"
  by (simp add: scenario_def construct_def blank_def)

lemma load_float_zero: "load_float (\<lambda>a. 0) a = 0"
  by (simp add: load_float_def)

lemma scenario_meshes: "meshes scenario vd = scenarioBuffer"
  by (simp add: scenario_def construct_def blank_def)

lemma scenario_ctor:
  "accessors scenario 0 = VertexAttributeAccessor_ctor 0 positionAttr scenario"
  "accessors scenario 1 = VertexAttributeAccessor_ctor 0 colorAttr scenario"
  "accessors scenario 2 = VertexAttributeAccessor_ctor 0 texCoordAttr scenario"
  by (simp_all add: scenario_def construct_def VertexAttributeAccessor_ctor_def blank_def)

lemma scenario_count: "getVertexCount (buffer this scenario) = 10"
  by (simp add: buffer_def scenario_meshes scenarioBuffer_def)

lemma emptyScenario_count: "getVertexCount (buffer this emptyScenario) = 0"
  by (simp add: buffer_def emptyScenario_def alter_def scenario_def construct_def blank_def
      VertexAttributeAccessor_ctor_def)

lemma scenario_ptr_0: "ptr 0 i scenario = 4096 + ucast i * 32"
  by (simp add: ptr_def scenario_ctor VertexAttributeAccessor_ctor_def scenario_meshes
      scenarioBuffer_def scenarioLayout_def positionAttr_def)

lemma scenario_ptr_2: "ptr 2 i scenario = 4112 + ucast i * 32"
  by (simp add: ptr_def scenario_ctor VertexAttributeAccessor_ctor_def scenario_meshes
      scenarioBuffer_def scenarioLayout_def texCoordAttr_def)

lemma scenario_layout:
  "allocated (meshes scenario 0)"
  "within_record (getVertexDescription (meshes scenario 0)) (getOffset positionAttr) 12"
  "within_record (getVertexDescription (meshes scenario 0)) (getOffset colorAttr) 4"
  "within_record (getVertexDescription (meshes scenario 0)) (getOffset texCoordAttr) 8"
  "non_overlapping (getOffset positionAttr) 12 (getOffset colorAttr) 4"
  "non_overlapping (getOffset texCoordAttr) 8 (getOffset colorAttr) 4"
  by (simp_all add: allocated_def within_record_def non_overlapping_def scenario_meshes
      scenarioBuffer_def scenarioLayout_def positionAttr_def colorAttr_def texCoordAttr_def)

subsection \<open>Out-of-range indices\<close>

text \<open>Claim C1. For every index \<open>i\<close> that is not below the current vertex count of the
  buffer, \<open>getPosition\<close> and \<open>setPosition\<close> raise a RangeError (carrying the index and
  the count) and leave the whole state, the vertex memory included, as it was. In
  particular, on a buffer with no vertex \<open>checkRange 0\<close> is false and every get and set
  at index 0 raises a RangeError.\<close>

theorem out_of_range_raises_RangeError:
  "(getVertexCount (buffer this w) \<le> i \<longrightarrow>
      getPosition this i w = (Inl (RangeError i (getVertexCount (buffer this w))), w) \<and>
      setPosition this i p w = (Inl (RangeError i (getVertexCount (buffer this w))), w)) \<and>
   (getVertexCount (buffer this w) = 0 \<longrightarrow>
      checkRange this 0 w = (Inr False, w) \<and>
      getPosition this 0 w = (Inl (RangeError 0 0), w) \<and>
      setPosition this 0 p w = (Inl (RangeError 0 0), w) \<and>
      getCoordinate this 0 w = (Inl (RangeError 0 0), w) \<and>
      setCoordinate this 0 q w = (Inl (RangeError 0 0), w))"
proof (intro conjI impI)
  assume "getVertexCount (buffer this w) \<le> i"
  then show "getPosition this i w = (Inl (RangeError i (getVertexCount (buffer this w))), w)"
    and "setPosition this i p w = (Inl (RangeError i (getVertexCount (buffer this w))), w)"
    by (rule getPosition_out_of_range, rule setPosition_out_of_range)
next
  assume empty: "getVertexCount (buffer this w) = 0"
  then have le: "getVertexCount (buffer this w) \<le> 0" by simp
  show "checkRange this 0 w = (Inr False, w)"
    by (simp add: checkRange_def empty)
  show "getPosition this 0 w = (Inl (RangeError 0 0), w)"
    using getPosition_out_of_range [OF le] by (simp add: empty)
  show "setPosition this 0 p w = (Inl (RangeError 0 0), w)"
    using setPosition_out_of_range [OF le] by (simp add: empty)
  show "getCoordinate this 0 w = (Inl (RangeError 0 0), w)"
    using getCoordinate_out_of_range [OF le] by (simp add: empty)
  show "setCoordinate this 0 q w = (Inl (RangeError 0 0), w)"
    using setCoordinate_out_of_range [OF le] by (simp add: empty)
qed

theorem out_of_range_raises_RangeError_witness:
  "getVertexCount (buffer 0 emptyScenario) \<le> 0 \<and>
   getVertexCount (buffer 0 emptyScenario) = 0 \<and>
   getPosition 0 0 emptyScenario = (Inl (RangeError 0 0), emptyScenario) \<and>
   setPosition 0 0 (Vec3 1 2 3) emptyScenario = (Inl (RangeError 0 0), emptyScenario) \<and>
   checkRange 0 0 emptyScenario = (Inr False, emptyScenario) \<and>
   getCoordinate 0 0 emptyScenario = (Inl (RangeError 0 0), emptyScenario) \<and>
   setCoordinate 0 0 (Vec2 1 2) emptyScenario = (Inl (RangeError 0 0), emptyScenario)"
proof -
  have empty: "getVertexCount (buffer 0 emptyScenario) = 0"
    by (rule emptyScenario_count)
  then have le: "getVertexCount (buffer 0 emptyScenario) \<le> 0"
    by simp
  show ?thesis
    using empty le
      out_of_range_raises_RangeError [of 0 emptyScenario 0 "Vec3 1 2 3" "Vec2 1 2"]
    by simp
qed

subsection \<open>Positions\<close>

text \<open>Claim C2. For every index \<open>i\<close> below the vertex count at the time of the call and
  every vector \<open>p\<close>, \<open>setPosition i p\<close> succeeds and a following \<open>getPosition i\<close> on the
  same accessor returns exactly \<open>p\<close>: the three floats come back bit for bit.\<close>

theorem setPosition_getPosition:
  assumes "i < getVertexCount (buffer this w)"
  shows "fst (setPosition this i p w) = Inr () \<and>
         getPosition this i (snd (setPosition this i p w)) =
           (Inr p, snd (setPosition this i p w))"
  using assms
  by (simp add: setPosition_in_range getPosition_in_range load_store_same load_store_apart)

theorem setPosition_getPosition_witness:
  "3 < getVertexCount (buffer 0 scenario) \<and>
   fst (setPosition 0 3 (Vec3 0x3F800000 0x40000000 0x40400000) scenario) = Inr () \<and>
   getPosition 0 3 (snd (setPosition 0 3 (Vec3 0x3F800000 0x40000000 0x40400000) scenario)) =
     (Inr (Vec3 0x3F800000 0x40000000 0x40400000),
      snd (setPosition 0 3 (Vec3 0x3F800000 0x40000000 0x40400000) scenario))"
proof -
  have valid: "3 < getVertexCount (buffer 0 scenario)"
    by (simp add: scenario_count)
  show ?thesis
    using valid setPosition_getPosition [OF valid, of "Vec3 0x3F800000 0x40000000 0x40400000"]
    by (intro conjI) simp_all
qed

subsection \<open>The range check reads the buffer at call time\<close>

text \<open>The accessor sees the buffer as it is after an alteration from outside.\<close>

lemma buffer_alter:
  "buffer this (alter (vData (accessors w this)) b w) = b"
  by (simp add: buffer_def alter_def)

text \<open>Claim C3. \<open>checkRange index\<close> is true if and only if \<open>index\<close> is below the vertex
  count that the buffer has when the call is made: after the buffer has been altered from
  outside to hold \<open>n\<close> vertices, the same accessor answers \<open>index < n\<close>. \<open>assertRange\<close>
  raises exactly when \<open>checkRange\<close> is false, and returns normally, the state unchanged,
  exactly when it is true.\<close>

theorem checkRange_live:
  "checkRange this i w = (Inr (i < getVertexCount (buffer this w)), w) \<and>
   checkRange this i (alter (vData (accessors w this)) ((buffer this w)\<lparr> getVertexCount := n \<rparr>) w) =
     (Inr (i < n), alter (vData (accessors w this)) ((buffer this w)\<lparr> getVertexCount := n \<rparr>) w) \<and>
   ((\<exists>e. fst (assertRange this i w) = Inl e) = (fst (checkRange this i w) = Inr False)) \<and>
   ((assertRange this i w = (Inr (), w)) = (fst (checkRange this i w) = Inr True))"
proof (intro conjI)
  show "checkRange this i w = (Inr (i < getVertexCount (buffer this w)), w)"
    by (simp add: checkRange_def)
  show "checkRange this i (alter (vData (accessors w this)) ((buffer this w)\<lparr> getVertexCount := n \<rparr>) w) =
     (Inr (i < n), alter (vData (accessors w this)) ((buffer this w)\<lparr> getVertexCount := n \<rparr>) w)"
    by (simp add: checkRange_def buffer_alter)
  show "(\<exists>e. fst (assertRange this i w) = Inl e) = (fst (checkRange this i w) = Inr False)"
    by (auto simp add: assertRange_def throwRangeError_def checkRange_def)
  show "(assertRange this i w = (Inr (), w)) = (fst (checkRange this i w) = Inr True)"
    by (auto simp add: assertRange_def throwRangeError_def checkRange_def)
qed

subsection \<open>Unchecked pointer arithmetic behind checked entry points\<close>

text \<open>Claim C4. The pointer primitive yields \<open>dataPtr + index * vertexSize\<close> for every
  index, in range or not: it has no check of its own. Each public entry point
  (\<open>getPosition\<close>, \<open>setPosition\<close>, \<open>getCoordinate\<close>, \<open>setCoordinate\<close>) checks the range
  first: at an index for which \<open>checkRange\<close> is false it raises RangeError and returns the
  state as it was, so the memory is neither read into a result nor written.\<close>

theorem unchecked_ptr_checked_entry_points:
  "ptr this i w = dataPtr (accessors w this) + ucast i * vertexSize (accessors w this) \<and>
   (fst (checkRange this i w) = Inr False \<longrightarrow>
      getPosition this i w = (Inl (RangeError i (getVertexCount (buffer this w))), w) \<and>
      setPosition this i p w = (Inl (RangeError i (getVertexCount (buffer this w))), w) \<and>
      getCoordinate this i w = (Inl (RangeError i (getVertexCount (buffer this w))), w) \<and>
      setCoordinate this i q w = (Inl (RangeError i (getVertexCount (buffer this w))), w))"
proof (intro conjI impI)
  show "ptr this i w = dataPtr (accessors w this) + ucast i * vertexSize (accessors w this)"
    by (simp add: ptr_def)
next
  assume "fst (checkRange this i w) = Inr False"
  then have out: "getVertexCount (buffer this w) \<le> i"
    by (simp add: checkRange_def)
  show "getPosition this i w = (Inl (RangeError i (getVertexCount (buffer this w))), w)"
    using out by (rule getPosition_out_of_range)
  show "setPosition this i p w = (Inl (RangeError i (getVertexCount (buffer this w))), w)"
    using out by (rule setPosition_out_of_range)
  show "getCoordinate this i w = (Inl (RangeError i (getVertexCount (buffer this w))), w)"
    using out by (rule getCoordinate_out_of_range)
  show "setCoordinate this i q w = (Inl (RangeError i (getVertexCount (buffer this w))), w)"
    using out by (rule setCoordinate_out_of_range)
qed

theorem unchecked_ptr_checked_entry_points_witness:
  "fst (checkRange 0 10 scenario) = Inr False \<and>
   ptr 0 10 scenario = 4416 \<and>
   getPosition 0 10 scenario = (Inl (RangeError 10 10), scenario) \<and>
   setPosition 0 10 (Vec3 1 2 3) scenario = (Inl (RangeError 10 10), scenario) \<and>
   getCoordinate 0 10 scenario = (Inl (RangeError 10 10), scenario) \<and>
   setCoordinate 0 10 (Vec2 1 2) scenario = (Inl (RangeError 10 10), scenario)"
proof -
  have out: "fst (checkRange 0 10 scenario) = Inr False"
    by (simp add: checkRange_def scenario_count)
  have p: "ptr 0 10 scenario = 4416"
    by (simp add: scenario_ptr_0)
  show ?thesis
    using out p unchecked_ptr_checked_entry_points [of 0 10 scenario "Vec3 1 2 3" "Vec2 1 2"]
    by (simp add: scenario_count)
qed

subsection \<open>What a call leaves unchanged\<close>

lemma getPosition_state: "snd (getPosition this i w) = w"
  by (cases "i < getVertexCount (buffer this w)")
    (simp_all add: getPosition_in_range getPosition_out_of_range)

lemma getCoordinate_state: "snd (getCoordinate this i w) = w"
  by (cases "i < getVertexCount (buffer this w)")
    (simp_all add: getCoordinate_in_range getCoordinate_out_of_range)

lemma setPosition_objects:
  "accessors (snd (setPosition this i p w)) = accessors w"
  "meshes (snd (setPosition this i p w)) = meshes w"
  by (cases "i < getVertexCount (buffer this w)";
      simp add: setPosition_in_range setPosition_out_of_range)+

lemma setCoordinate_objects:
  "accessors (snd (setCoordinate this i p w)) = accessors w"
  "meshes (snd (setCoordinate this i p w)) = meshes w"
  by (cases "i < getVertexCount (buffer this w)";
      simp add: setCoordinate_in_range setCoordinate_out_of_range)+

lemma exec_accessors: "accessors (exec c w) = accessors w"
  by (cases c)
    (simp_all add: checkRange_def getAttribute_def getPosition_state getCoordinate_state
      setPosition_objects setCoordinate_objects alter_def)

lemma run_accessors: "accessors (run cs w) = accessors w"
  by (induction cs arbitrary: w) (simp_all add: exec_accessors)

subsection \<open>The accessor after construction\<close>

text \<open>Claim C9. The state of an accessor is fixed by its constructor. After any sequence
  of calls (range checks, gets and sets through any accessor) and of alterations of
  buffers from outside, the accessor holds what the constructor stored: the metadata it
  was given, the stride and the base pointer (buffer pointer plus attribute offset) read
  from the buffer as it was at construction. So \<open>getAttribute\<close> returns the metadata
  supplied at construction, and the address computed for index \<open>i\<close> is the cached base
  plus \<open>i\<close> times the captured stride, whatever has become of the buffer or its layout.\<close>

theorem accessor_state_fixed:
  "accessors (run cs (construct this vd attr w)) this = VertexAttributeAccessor_ctor vd attr w \<and>
   getAttribute this (run cs (construct this vd attr w)) =
     (Inr attr, run cs (construct this vd attr w)) \<and>
   ptr this i (run cs (construct this vd attr w)) =
     (data (meshes w vd) + getOffset attr)
       + ucast i * getVertexSize (getVertexDescription (meshes w vd))"
proof -
  have fixed: "accessors (run cs (construct this vd attr w)) this =
      VertexAttributeAccessor_ctor vd attr w"
    by (simp add: run_accessors construct_def)
  show ?thesis
    by (simp add: fixed getAttribute_def ptr_def VertexAttributeAccessor_ctor_def)
qed

subsection \<open>Reads\<close>

text \<open>Claim C10. The get operations \<open>getPosition\<close>, \<open>getCoordinate\<close>, \<open>checkRange\<close> and
  \<open>getAttribute\<close> are pure reads: the state after the call (vertex memory, buffers,
  accessors) is the state before it, whether the call returns or raises. They are
  deterministic: a second call with the same index, made in the state the first call
  left, yields the same result.\<close>

theorem get_operations_pure:
  "snd (getPosition this i w) = w \<and>
   snd (getCoordinate this i w) = w \<and>
   snd (checkRange this i w) = w \<and>
   snd (getAttribute this w) = w \<and>
   getPosition this i (snd (getPosition this i w)) = getPosition this i w \<and>
   getCoordinate this i (snd (getCoordinate this i w)) = getCoordinate this i w \<and>
   checkRange this i (snd (checkRange this i w)) = checkRange this i w \<and>
   getAttribute this (snd (getAttribute this w)) = getAttribute this w"
  by (simp add: getPosition_state getCoordinate_state checkRange_def getAttribute_def)

subsection \<open>Texture coordinates\<close>

lemma store_float_elsewhere:
  "b \<noteq> a \<Longrightarrow> b \<noteq> a + 1 \<Longrightarrow> b \<noteq> a + 2 \<Longrightarrow> b \<noteq> a + 3 \<Longrightarrow> store_float a f m b = m b"
  by (simp add: store_float_def)

lemma setCoordinate_elsewhere:
  assumes "\<forall>d<8. b \<noteq> ptr this i w + of_nat d"
  shows "mem (snd (setCoordinate this i p w)) b = mem w b"
proof (cases "i < getVertexCount (buffer this w)")
  case True
  have "b \<noteq> ptr this i w + of_nat d" if "d < 8" for d
    using assms that by blast
  from this [of 0] this [of 1] this [of 2] this [of 3] this [of 4] this [of 5] this [of 6]
    this [of 7]
  show ?thesis
    by (simp add: setCoordinate_in_range True store_float_elsewhere add.assoc)
next
  case False
  then show ?thesis by (simp add: setCoordinate_out_of_range)
qed

text \<open>Claim C6. The texture-coordinate accessor has the contract of the position accessor
  with two components. At an index \<open>j\<close> not below the vertex count, \<open>getCoordinate\<close> and
  \<open>setCoordinate\<close> raise RangeError and change nothing. At an index \<open>i\<close> below it,
  \<open>getCoordinate\<close> decodes the two consecutive 32-bit floats at the address of the
  attribute as (u, v); \<open>setCoordinate\<close> writes the two floats there, in place: it changes
  no byte outside these eight and no object; and a \<open>getCoordinate\<close> after it returns
  exactly the vector written.\<close>

theorem texCoord_contract:
  "(getVertexCount (buffer this w) \<le> j \<longrightarrow>
      getCoordinate this j w = (Inl (RangeError j (getVertexCount (buffer this w))), w) \<and>
      setCoordinate this j p w = (Inl (RangeError j (getVertexCount (buffer this w))), w)) \<and>
   (i < getVertexCount (buffer this w) \<longrightarrow>
      getCoordinate this i w =
        (Inr (Vec2 (load_float (mem w) (ptr this i w))
                   (load_float (mem w) (ptr this i w + 4))), w) \<and>
      fst (setCoordinate this i p w) = Inr () \<and>
      load_float (mem (snd (setCoordinate this i p w))) (ptr this i w) = vec2_x p \<and>
      load_float (mem (snd (setCoordinate this i p w))) (ptr this i w + 4) = vec2_y p \<and>
      (\<forall>b. (\<forall>d<8. b \<noteq> ptr this i w + of_nat d) \<longrightarrow>
           mem (snd (setCoordinate this i p w)) b = mem w b) \<and>
      meshes (snd (setCoordinate this i p w)) = meshes w \<and>
      accessors (snd (setCoordinate this i p w)) = accessors w \<and>
      getCoordinate this i (snd (setCoordinate this i p w)) =
        (Inr p, snd (setCoordinate this i p w)))"
proof (intro conjI impI allI)
  assume out: "getVertexCount (buffer this w) \<le> j"
  show "getCoordinate this j w = (Inl (RangeError j (getVertexCount (buffer this w))), w)"
    using out by (rule getCoordinate_out_of_range)
  show "setCoordinate this j p w = (Inl (RangeError j (getVertexCount (buffer this w))), w)"
    using out by (rule setCoordinate_out_of_range)
next
  assume valid: "i < getVertexCount (buffer this w)"
  show "getCoordinate this i w =
        (Inr (Vec2 (load_float (mem w) (ptr this i w))
                   (load_float (mem w) (ptr this i w + 4))), w)"
    using valid by (rule getCoordinate_in_range)
  show "fst (setCoordinate this i p w) = Inr ()"
    by (simp add: setCoordinate_in_range valid)
  show "load_float (mem (snd (setCoordinate this i p w))) (ptr this i w) = vec2_x p"
    by (simp add: setCoordinate_in_range valid load_store_same load_store_apart)
  show "load_float (mem (snd (setCoordinate this i p w))) (ptr this i w + 4) = vec2_y p"
    by (simp add: setCoordinate_in_range valid load_store_same)
  show "meshes (snd (setCoordinate this i p w)) = meshes w"
    by (rule setCoordinate_objects)
  show "accessors (snd (setCoordinate this i p w)) = accessors w"
    by (rule setCoordinate_objects)
  show "getCoordinate this i (snd (setCoordinate this i p w)) =
        (Inr p, snd (setCoordinate this i p w))"
    by (simp add: setCoordinate_in_range getCoordinate_in_range valid load_store_same
        load_store_apart)
next
  fix b
  assume "i < getVertexCount (buffer this w)" and "\<forall>d<8. b \<noteq> ptr this i w + of_nat d"
  then show "mem (snd (setCoordinate this i p w)) b = mem w b"
    by (simp add: setCoordinate_elsewhere)
qed

theorem texCoord_contract_witness:
  "getVertexCount (buffer 2 scenario) \<le> 10 \<and>
   3 < getVertexCount (buffer 2 scenario) \<and>
   getCoordinate 2 10 scenario = (Inl (RangeError 10 10), scenario) \<and>
   setCoordinate 2 10 (Vec2 0x3F000000 0x3E800000) scenario =
     (Inl (RangeError 10 10), scenario) \<and>
   getCoordinate 2 3 scenario = (Inr (Vec2 0 0), scenario) \<and>
   fst (setCoordinate 2 3 (Vec2 0x3F000000 0x3E800000) scenario) = Inr () \<and>
   load_float (mem (snd (setCoordinate 2 3 (Vec2 0x3F000000 0x3E800000) scenario))) 4208 =
     0x3F000000 \<and>
   load_float (mem (snd (setCoordinate 2 3 (Vec2 0x3F000000 0x3E800000) scenario))) 4212 =
     0x3E800000 \<and>
   mem (snd (setCoordinate 2 3 (Vec2 0x3F000000 0x3E800000) scenario)) 4216 = 0 \<and>
   getCoordinate 2 3 (snd (setCoordinate 2 3 (Vec2 0x3F000000 0x3E800000) scenario)) =
     (Inr (Vec2 0x3F000000 0x3E800000),
      snd (setCoordinate 2 3 (Vec2 0x3F000000 0x3E800000) scenario))"
proof -
  have out: "getVertexCount (buffer 2 scenario) \<le> 10"
    by (simp add: scenario_count)
  have valid: "3 < getVertexCount (buffer 2 scenario)"
    by (simp add: scenario_count)
  have at: "ptr 2 3 scenario = 4208"
    by (simp add: scenario_ptr_2)
  have apart: "\<forall>d<8. (4216 :: addr) \<noteq> ptr 2 3 scenario + of_nat d"
  proof (intro allI impI)
    fix d :: nat
    assume "d < 8"
    then have "d \<in> {0, 1, 2, 3, 4, 5, 6, 7}"
      by auto
    then show "(4216 :: addr) \<noteq> ptr 2 3 scenario + of_nat d"
      by (auto simp add: at)
  qed
  show ?thesis
    using out valid apart
      texCoord_contract [of 2 scenario 10 "Vec2 0x3F000000 0x3E800000" 3]
    by (simp add: at scenario_count scenario_mem load_float_zero)
qed

subsection \<open>Factories\<close>

lemma lookup_absent:
  "name \<notin> getNameId ` set (getAttributes vdesc) \<Longrightarrow> lookup vdesc name = None"
  by (auto simp add: lookup_def find_None_iff)

text \<open>Claim C5. For every buffer and every attribute name that is absent from the layout
  descriptor of the buffer, the factory of each family fails with InvalidAttribute and
  leaves the state as it was: no accessor is constructed. This failure is distinct from
  UnsupportedEncoding, with which the factory fails when the attribute exists and no
  strategy of the family matches it.\<close>

theorem create_missing_attribute:
  "(name \<notin> getNameId ` set (getAttributes (getVertexDescription (meshes w vd))) \<longrightarrow>
      create strategies fam fresh vd name w = (Inl InvalidAttribute, w)) \<and>
   (lookup (getVertexDescription (meshes w vd)) name' = Some attr \<and>
    find (matches attr) (strategies fam) = None \<longrightarrow>
      create strategies fam fresh vd name' w = (Inl UnsupportedEncoding, w)) \<and>
   InvalidAttribute \<noteq> UnsupportedEncoding"
  by (simp add: create_def lookup_absent)

theorem create_missing_attribute_witness:
  "''missing_attr'' \<notin> getNameId ` set (getAttributes (getVertexDescription (meshes scenario 0))) \<and>
   lookup (getVertexDescription (meshes scenario 0)) ''texcoord'' = Some texCoordAttr \<and>
   find (matches texCoordAttr) (supported Normal) = None \<and>
   create supported Color 3 0 ''missing_attr'' scenario = (Inl InvalidAttribute, scenario) \<and>
   create supported Normal 3 0 ''missing_attr'' scenario = (Inl InvalidAttribute, scenario) \<and>
   create supported Position 3 0 ''missing_attr'' scenario = (Inl InvalidAttribute, scenario) \<and>
   create supported TexCoord 3 0 ''missing_attr'' scenario = (Inl InvalidAttribute, scenario) \<and>
   create supported Normal 3 0 ''texcoord'' scenario = (Inl UnsupportedEncoding, scenario)"
proof -
  have absent:
    "''missing_attr'' \<notin> getNameId ` set (getAttributes (getVertexDescription (meshes scenario 0)))"
    by (simp add: scenario_meshes scenarioBuffer_def scenarioLayout_def positionAttr_def
        colorAttr_def texCoordAttr_def)
  have present: "lookup (getVertexDescription (meshes scenario 0)) ''texcoord'' = Some texCoordAttr"
    by (simp add: lookup_def scenario_meshes scenarioBuffer_def scenarioLayout_def
        positionAttr_def colorAttr_def texCoordAttr_def)
  have unsupported: "find (matches texCoordAttr) (supported Normal) = None"
    by (simp add: supported_def matches_def texCoordAttr_def)
  show ?thesis
    using absent present unsupported
      create_missing_attribute [of "''missing_attr''" scenario 0 supported Color 3 "''texcoord''" texCoordAttr]
      create_missing_attribute [of "''missing_attr''" scenario 0 supported Normal 3 "''texcoord''" texCoordAttr]
      create_missing_attribute [of "''missing_attr''" scenario 0 supported Position 3 "''texcoord''" texCoordAttr]
      create_missing_attribute [of "''missing_attr''" scenario 0 supported TexCoord 3 "''texcoord''" texCoordAttr]
    by simp
qed

subsection \<open>Attributes that do not overlap\<close>

lemma records_apart:
  fixes S offA nA offB nB i j d k :: nat
  assumes inA: "offA + nA \<le> S" and inB: "offB + nB \<le> S"
    and disj: "offA + nA \<le> offB \<or> offB + nB \<le> offA"
    and d: "d < nA" and k: "k < nB"
  shows "i * S + offA + d \<noteq> j * S + offB + k"
proof -
  consider "i = j" | "i < j" | "j < i"
    by arith
  then show ?thesis
  proof cases
    case 1
    with disj d k show ?thesis by auto
  next
    case 2
    then have "Suc i * S \<le> j * S"
      by (intro mult_le_mono1) simp
    moreover have "i * S + offA + d < Suc i * S"
      using inA d by simp
    ultimately show ?thesis by arith
  next
    case 3
    then have "Suc j * S \<le> i * S"
      by (intro mult_le_mono1) simp
    moreover have "j * S + offB + k < Suc j * S"
      using inB k by simp
    ultimately show ?thesis by arith
  qed
qed

lemma of_nat_addr_inj:
  "x < 2 ^ 64 \<Longrightarrow> y < 2 ^ 64 \<Longrightarrow> (of_nat x :: addr) = of_nat y \<Longrightarrow> x = y"
  by (simp add: word_of_nat_eq_iff take_bit_nat_eq_self)

lemma ptr_of_nat:
  assumes "accessors w this = VertexAttributeAccessor_ctor vd attr w"
  shows "ptr this i w + of_nat d =
    of_nat (unat (data (meshes w vd))
      + (unat i * unat (getVertexSize (getVertexDescription (meshes w vd)))
          + unat (getOffset attr) + d))"
  by (simp add: ptr_def assms VertexAttributeAccessor_ctor_def)

lemma record_in_buffer:
  fixes base n S i off len d :: nat
  assumes alloc: "base + n * S \<le> 2 ^ 64" and i: "i < n" and inside: "off + len \<le> S"
    and d: "d < len"
  shows "base + (i * S + off + d) < 2 ^ 64"
proof -
  have "Suc i * S \<le> n * S"
    using i by (intro mult_le_mono1) simp
  moreover have "i * S + off + d < Suc i * S"
    using inside d by simp
  ultimately show ?thesis
    using alloc by arith
qed

lemma footprints_apart:
  assumes A: "accessors w a = VertexAttributeAccessor_ctor vd attrA w"
    and B: "accessors w b = VertexAttributeAccessor_ctor vd attrB w"
    and alloc: "allocated (meshes w vd)"
    and inA: "within_record (getVertexDescription (meshes w vd)) (getOffset attrA) nA"
    and inB: "within_record (getVertexDescription (meshes w vd)) (getOffset attrB) nB"
    and disj: "non_overlapping (getOffset attrA) nA (getOffset attrB) nB"
    and i: "i < getVertexCount (meshes w vd)" and j: "j < getVertexCount (meshes w vd)"
    and d: "d < nA" and k: "k < nB"
  shows "ptr b j w + of_nat k \<noteq> ptr a i w + of_nat d"
proof
  let ?base = "unat (data (meshes w vd))"
  let ?S = "unat (getVertexSize (getVertexDescription (meshes w vd)))"
  let ?n = "unat (getVertexCount (meshes w vd))"
  let ?x = "unat i * ?S + unat (getOffset attrA) + d"
  let ?y = "unat j * ?S + unat (getOffset attrB) + k"
  assume "ptr b j w + of_nat k = ptr a i w + of_nat d"
  then have eq: "(of_nat (?base + ?y) :: addr) = of_nat (?base + ?x)"
    by (simp only: ptr_of_nat [OF A] ptr_of_nat [OF B])
  have alloc': "?base + ?n * ?S \<le> 2 ^ 64"
    using alloc by (simp add: allocated_def)
  have inA': "unat (getOffset attrA) + nA \<le> ?S"
    using inA by (simp add: within_record_def)
  have inB': "unat (getOffset attrB) + nB \<le> ?S"
    using inB by (simp add: within_record_def)
  have i': "unat i < ?n" using i by (simp add: word_less_nat_alt)
  have j': "unat j < ?n" using j by (simp add: word_less_nat_alt)
  have "?base + ?x < 2 ^ 64"
    using alloc' i' inA' d by (rule record_in_buffer)
  moreover have "?base + ?y < 2 ^ 64"
    using alloc' j' inB' k by (rule record_in_buffer)
  ultimately have "?base + ?y = ?base + ?x"
    using eq by (intro of_nat_addr_inj)
  then have "?x = ?y" by simp
  moreover have "?x \<noteq> ?y"
    using inA' inB' _ d k
  proof (rule records_apart)
    show "unat (getOffset attrA) + nA \<le> unat (getOffset attrB) \<or>
        unat (getOffset attrB) + nB \<le> unat (getOffset attrA)"
      using disj by (simp add: non_overlapping_def)
  qed
  ultimately show False by simp
qed

lemma setPosition_elsewhere:
  assumes "\<forall>d<12. b \<noteq> ptr this i w + of_nat d"
  shows "mem (snd (setPosition this i p w)) b = mem w b"
proof (cases "i < getVertexCount (buffer this w)")
  case True
  have "b \<noteq> ptr this i w + of_nat d" if "d < 12" for d
    using assms that by blast
  from this [of 0] this [of 1] this [of 2] this [of 3] this [of 4] this [of 5] this [of 6]
    this [of 7] this [of 8] this [of 9] this [of 10] this [of 11]
  show ?thesis
    by (simp add: setPosition_in_range True store_float_elsewhere add.assoc)
next
  case False
  then show ?thesis by (simp add: setPosition_out_of_range)
qed

lemma ctor_buffer:
  "accessors w this = VertexAttributeAccessor_ctor vd attr w \<Longrightarrow> buffer this w = meshes w vd"
  by (simp add: buffer_def VertexAttributeAccessor_ctor_def)

text \<open>Claim C7. Let accessors be bound to attributes of the same buffer, an allocation
  whose records hold the attributes at byte ranges that lie within the record and do not
  overlap. A write through one accessor, \<open>setPosition\<close> (twelve bytes) or \<open>setCoordinate\<close>
  (eight bytes) at any index \<open>i\<close>, leaves every byte \<open>k\<close> of the other attribute \<open>b\<close>
  unchanged at every valid index \<open>j\<close>, the index \<open>i\<close> itself included.\<close>

theorem disjoint_attributes_frame:
  assumes A: "accessors w a = VertexAttributeAccessor_ctor vd attrA w"
    and C: "accessors w c = VertexAttributeAccessor_ctor vd attrC w"
    and B: "accessors w b = VertexAttributeAccessor_ctor vd attrB w"
    and alloc: "allocated (meshes w vd)"
    and inB: "within_record (getVertexDescription (meshes w vd)) (getOffset attrB) nB"
    and j: "j < getVertexCount (meshes w vd)" and k: "k < nB"
  shows
    "(within_record (getVertexDescription (meshes w vd)) (getOffset attrA) 12 \<and>
      non_overlapping (getOffset attrA) 12 (getOffset attrB) nB \<longrightarrow>
        mem (snd (setPosition a i p w)) (ptr b j w + of_nat k) = mem w (ptr b j w + of_nat k)) \<and>
     (within_record (getVertexDescription (meshes w vd)) (getOffset attrC) 8 \<and>
      non_overlapping (getOffset attrC) 8 (getOffset attrB) nB \<longrightarrow>
        mem (snd (setCoordinate c i q w)) (ptr b j w + of_nat k) = mem w (ptr b j w + of_nat k))"
proof (intro conjI impI)
  assume layout: "within_record (getVertexDescription (meshes w vd)) (getOffset attrA) 12 \<and>
      non_overlapping (getOffset attrA) 12 (getOffset attrB) nB"
  show "mem (snd (setPosition a i p w)) (ptr b j w + of_nat k) = mem w (ptr b j w + of_nat k)"
  proof (cases "i < getVertexCount (meshes w vd)")
    case True
    have "ptr b j w + of_nat k \<noteq> ptr a i w + of_nat d" if "d < 12" for d
      using A B alloc _ inB _ True j that k
      by (rule footprints_apart) (simp_all add: layout)
    then show ?thesis
      by (intro setPosition_elsewhere) simp
  next
    case False
    then show ?thesis
      by (simp add: setPosition_out_of_range ctor_buffer [OF A])
  qed
next
  assume layout: "within_record (getVertexDescription (meshes w vd)) (getOffset attrC) 8 \<and>
      non_overlapping (getOffset attrC) 8 (getOffset attrB) nB"
  show "mem (snd (setCoordinate c i q w)) (ptr b j w + of_nat k) = mem w (ptr b j w + of_nat k)"
  proof (cases "i < getVertexCount (meshes w vd)")
    case True
    have "ptr b j w + of_nat k \<noteq> ptr c i w + of_nat d" if "d < 8" for d
      using C B alloc _ inB _ True j that k
      by (rule footprints_apart) (simp_all add: layout)
    then show ?thesis
      by (intro setCoordinate_elsewhere) simp
  next
    case False
    then show ?thesis
      by (simp add: setCoordinate_out_of_range ctor_buffer [OF C])
  qed
qed

theorem disjoint_attributes_frame_witness:
  "accessors scenario 0 = VertexAttributeAccessor_ctor 0 positionAttr scenario \<and>
   accessors scenario 2 = VertexAttributeAccessor_ctor 0 texCoordAttr scenario \<and>
   accessors scenario 1 = VertexAttributeAccessor_ctor 0 colorAttr scenario \<and>
   allocated (meshes scenario 0) \<and>
   within_record (getVertexDescription (meshes scenario 0)) (getOffset colorAttr) 4 \<and>
   3 < getVertexCount (meshes scenario 0) \<and>
   (2 :: nat) < 4 \<and>
   within_record (getVertexDescription (meshes scenario 0)) (getOffset positionAttr) 12 \<and>
   non_overlapping (getOffset positionAttr) 12 (getOffset colorAttr) 4 \<and>
   within_record (getVertexDescription (meshes scenario 0)) (getOffset texCoordAttr) 8 \<and>
   non_overlapping (getOffset texCoordAttr) 8 (getOffset colorAttr) 4 \<and>
   mem (snd (setPosition 0 3 (Vec3 0x3F800000 0x40000000 0x40400000) scenario))
       (ptr 1 3 scenario + 2) = mem scenario (ptr 1 3 scenario + 2) \<and>
   mem (snd (setCoordinate 2 3 (Vec2 0x3F000000 0x3E800000) scenario))
       (ptr 1 3 scenario + 2) = mem scenario (ptr 1 3 scenario + 2)"
proof -
  have valid: "3 < getVertexCount (meshes scenario 0)"
    by (simp add: scenario_meshes scenarioBuffer_def)
  have k: "(2 :: nat) < 4"
    by simp
  note frame = disjoint_attributes_frame [OF scenario_ctor(1) scenario_ctor(3) scenario_ctor(2)
      scenario_layout(1) scenario_layout(3) valid k,
      of 3 "Vec3 0x3F800000 0x40000000 0x40400000" "Vec2 0x3F000000 0x3E800000"]
  show ?thesis
    using frame valid scenario_ctor scenario_layout by simp
qed

end
